theory Spec2Isabelle
  imports Main "HOL-Library.Word"
begin

section \<open>Slices of containers and C arrays (include/exiv2/slice.hpp)\<close>

text \<open>
  A slice is a non-owning view of the half-open range \<open>[begin, end)\<close> of a
  standard container or of a C array. The header has three structs:
  \<open>Internal::SliceBase\<close> (the bounds and their checks), \<open>Slice<container>\<close> and
  \<open>Slice<T*>\<close>, and the \<open>makeSlice\<close> family of factory functions.

  Indices are \<open>size_t\<close>, taken as 64 bit wide: \<open>+\<close> and \<open>-\<close> wrap around.
  A \<open>throw\<close> is the \<open>Inl\<close> branch of a sum; the exception carries the text the
  source gives it, which is what tells the throw sites of \<open>std::out_of_range\<close>
  apart.
\<close>

type_synonym size_t = "64 word"

datatype failure =
    out_of_range string
  | invalid_argument string
  | undefined_behaviour
  \<comment> \<open>not an exception: what the language leaves undefined (reading through a
     null pointer or outside an array)\<close>

subsection \<open>Internal::SliceBase\<close>

record SliceBase =
  m_begin :: size_t
  m_end :: size_t

text \<open>
  The members \<open>begin_\<close> and \<open>end_\<close> are \<open>m_begin\<close> and \<open>m_end\<close> here (a name
  cannot end in an underscore). The constructor stores both bounds and throws
  when \<open>begin >= end\<close>.
\<close>

definition SliceBase_ctor :: "size_t \<Rightarrow> size_t \<Rightarrow> failure + SliceBase" where
  "SliceBase_ctor begin end =
     (if begin \<ge> end then Inl (out_of_range ''Begin must be smaller than end'')
      else Inr \<lparr>m_begin = begin, m_end = end\<rparr>)"

definition SliceBase_size :: "'z SliceBase_scheme \<Rightarrow> size_t" where
  "SliceBase_size s = m_end s - m_begin s"

definition rangeCheck :: "'z SliceBase_scheme \<Rightarrow> size_t \<Rightarrow> failure + unit" where
  "rangeCheck s index =
     (if index \<ge> SliceBase_size s then Inl (out_of_range ''Index outside of the slice'')
      else Inr ())"

text \<open>
  \<open>calculateSubSliceBounds\<close> updates its two reference parameters in place; the
  model returns the pair of new values.
\<close>

definition calculateSubSliceBounds ::
  "'z SliceBase_scheme \<Rightarrow> size_t \<Rightarrow> size_t \<Rightarrow> failure + (size_t \<times> size_t)" where
  "calculateSubSliceBounds s begin end =
     (if begin \<ge> SliceBase_size s \<or> end > SliceBase_size s
      then Inl (out_of_range ''sub-Slice index out of range'')
      else let begin' = begin + m_begin s;
               end' = end + m_begin s
           in if end' > m_end s then Inl (out_of_range ''sub-Slice index out of range'')
              else Inr (begin', end'))"

subsection \<open>Stores: containers, arrays, references and iterators\<close>

text \<open>
  A slice holds a reference \<open>container&\<close> or a pointer \<open>T*\<close>, so the containers
  and arrays live in a store that maps an object's identity to its elements, and
  several slices can name one object. A reference \<open>value_type&\<close> to an element is
  the pair of the object and the element's position. Reading and writing through
  a reference are the caller's; outside the object they are undefined.
\<close>

type_synonym 'a heap = "nat \<Rightarrow> 'a list"

type_synonym lvalue = "nat \<times> nat"

definition load :: "'a heap \<Rightarrow> lvalue \<Rightarrow> failure + 'a" where
  "load h r =
     (case r of (a, k) \<Rightarrow>
        if k < length (h a) then Inr (h a ! k) else Inl undefined_behaviour)"

definition store :: "'a heap \<Rightarrow> lvalue \<Rightarrow> 'a \<Rightarrow> failure + 'a heap" where
  "store h r x =
     (case r of (a, k) \<Rightarrow>
        if k < length (h a) then Inr (h(a := (h a)[k := x])) else Inl undefined_behaviour)"

text \<open>
  What the header needs of a standard container: \<open>size()\<close>, and \<open>at(n)\<close>, which
  throws \<open>std::out_of_range\<close> when \<open>n >= size()\<close> (the text of that exception is
  the library's own).
\<close>

definition cont_size :: "'a list \<Rightarrow> size_t" where
  "cont_size c = of_nat (length c)"

definition cont_at :: "'a heap \<Rightarrow> nat \<Rightarrow> size_t \<Rightarrow> failure + lvalue" where
  "cont_at h cont n =
     (if n \<ge> cont_size (h cont) then Inl (out_of_range ''container::at'')
      else Inr (cont, unat n))"

text \<open>
  A pointer is null or points at position \<open>k\<close> of array \<open>a\<close>; position
  \<open>length\<close> (one past the end) may be formed but not dereferenced. A random-access
  iterator of a container is such a position as well.
\<close>

datatype ptr = nullptr | Ptr nat nat

type_synonym iterator = ptr

definition ptr_add :: "'a heap \<Rightarrow> ptr \<Rightarrow> int \<Rightarrow> failure + ptr" where
  "ptr_add h p d =
     (case p of
        nullptr \<Rightarrow> if d = 0 then Inr nullptr else Inl undefined_behaviour
      | Ptr a k \<Rightarrow>
          if 0 \<le> int k + d \<and> int k + d \<le> int (length (h a))
          then Inr (Ptr a (nat (int k + d)))
          else Inl undefined_behaviour)"

definition deref :: "'a heap \<Rightarrow> ptr \<Rightarrow> failure + lvalue" where
  "deref h p =
     (case p of
        nullptr \<Rightarrow> Inl undefined_behaviour
      | Ptr a k \<Rightarrow> if k < length (h a) then Inr (a, k) else Inl undefined_behaviour)"

text \<open>\<open>p[n]\<close> is \<open>*(p + n)\<close>, with \<open>n\<close> of type \<open>size_t\<close>.\<close>

definition ptr_index :: "'a heap \<Rightarrow> ptr \<Rightarrow> size_t \<Rightarrow> failure + lvalue" where
  "ptr_index h p n =
     (case ptr_add h p (uint n) of Inl e \<Rightarrow> Inl e | Inr q \<Rightarrow> deref h q)"

text \<open>
  \<open>cont.begin()\<close>, and \<open>std::advance(iter, offset)\<close>, which converts the \<open>size_t\<close>
  offset to the iterator's signed \<open>difference_type\<close>.
\<close>

definition cont_begin :: "nat \<Rightarrow> iterator" where
  "cont_begin cont = Ptr cont 0"

definition advance :: "'a heap \<Rightarrow> iterator \<Rightarrow> size_t \<Rightarrow> failure + iterator" where
  "advance h iter offset = ptr_add h iter (sint offset)"

subsection \<open>Slice<container>\<close>

record Slice = SliceBase +
  m_cont :: nat

definition Slice_ctor :: "'a heap \<Rightarrow> nat \<Rightarrow> size_t \<Rightarrow> size_t \<Rightarrow> failure + Slice" where
  "Slice_ctor h cont begin end =
     (case SliceBase_ctor begin end of
        Inl e \<Rightarrow> Inl e
      | Inr base \<Rightarrow>
          if end > cont_size (h cont)
          then Inl (out_of_range ''End must not be larger than the container.'')
          else Inr \<lparr>m_begin = m_begin base, m_end = m_end base, m_cont = cont\<rparr>)"

text \<open>
  Both overloads of \<open>at\<close> have the same body and return a reference to the
  element; the \<open>const\<close> one returns a \<open>const\<close> reference, through which the caller
  can only \<open>load\<close>.
\<close>

definition Slice_at :: "'a heap \<Rightarrow> Slice \<Rightarrow> size_t \<Rightarrow> failure + lvalue" where
  "Slice_at h s index =
     (case rangeCheck s index of
        Inl e \<Rightarrow> Inl e
      | Inr _ \<Rightarrow> cont_at h (m_cont s) (m_begin s + index))"

definition RETURN_ITERATOR :: "'a heap \<Rightarrow> nat \<Rightarrow> size_t \<Rightarrow> failure + iterator" where
  "RETURN_ITERATOR h cont offset = advance h (cont_begin cont) offset"

definition Slice_cbegin :: "'a heap \<Rightarrow> Slice \<Rightarrow> failure + iterator" where
  "Slice_cbegin h s = RETURN_ITERATOR h (m_cont s) (m_begin s)"

definition Slice_begin :: "'a heap \<Rightarrow> Slice \<Rightarrow> failure + iterator" where
  "Slice_begin h s = RETURN_ITERATOR h (m_cont s) (m_begin s)"

definition Slice_cend :: "'a heap \<Rightarrow> Slice \<Rightarrow> failure + iterator" where
  "Slice_cend h s = RETURN_ITERATOR h (m_cont s) (m_end s)"

definition Slice_end :: "'a heap \<Rightarrow> Slice \<Rightarrow> failure + iterator" where
  "Slice_end h s = RETURN_ITERATOR h (m_cont s) (m_end s)"

definition Slice_subSlice :: "'a heap \<Rightarrow> Slice \<Rightarrow> size_t \<Rightarrow> size_t \<Rightarrow> failure + Slice" where
  "Slice_subSlice h s begin end =
     (case calculateSubSliceBounds s begin end of
        Inl e \<Rightarrow> Inl e
      | Inr (begin', end') \<Rightarrow> Slice_ctor h (m_cont s) begin' end')"

subsection \<open>Slice<T*>\<close>

record PtrSlice = SliceBase +
  m_ptr :: ptr

definition PtrSlice_ctor :: "ptr \<Rightarrow> size_t \<Rightarrow> size_t \<Rightarrow> failure + PtrSlice" where
  "PtrSlice_ctor p begin end =
     (case SliceBase_ctor begin end of
        Inl e \<Rightarrow> Inl e
      | Inr base \<Rightarrow>
          if p = nullptr then Inl (invalid_argument ''ptr must not be null.'')
          else Inr \<lparr>m_begin = m_begin base, m_end = m_end base, m_ptr = p\<rparr>)"

definition PtrSlice_at :: "'a heap \<Rightarrow> PtrSlice \<Rightarrow> size_t \<Rightarrow> failure + lvalue" where
  "PtrSlice_at h s index =
     (case rangeCheck s index of
        Inl e \<Rightarrow> Inl e
      | Inr _ \<Rightarrow> ptr_index h (m_ptr s) (m_begin s + index))"

definition PtrSlice_cbegin :: "'a heap \<Rightarrow> PtrSlice \<Rightarrow> failure + ptr" where
  "PtrSlice_cbegin h s = ptr_add h (m_ptr s) (uint (m_begin s))"

definition PtrSlice_begin :: "'a heap \<Rightarrow> PtrSlice \<Rightarrow> failure + ptr" where
  "PtrSlice_begin h s = ptr_add h (m_ptr s) (uint (m_begin s))"

definition PtrSlice_cend :: "'a heap \<Rightarrow> PtrSlice \<Rightarrow> failure + ptr" where
  "PtrSlice_cend h s = ptr_add h (m_ptr s) (uint (m_end s))"

definition PtrSlice_end :: "'a heap \<Rightarrow> PtrSlice \<Rightarrow> failure + ptr" where
  "PtrSlice_end h s = ptr_add h (m_ptr s) (uint (m_end s))"

definition PtrSlice_subSlice :: "PtrSlice \<Rightarrow> size_t \<Rightarrow> size_t \<Rightarrow> failure + PtrSlice" where
  "PtrSlice_subSlice s begin end =
     (case calculateSubSliceBounds s begin end of
        Inl e \<Rightarrow> Inl e
      | Inr (begin', end') \<Rightarrow> PtrSlice_ctor (m_ptr s) begin' end')"

subsection \<open>The factory functions\<close>

text \<open>
  The overloads of \<open>makeSlice\<close> and \<open>makeSliceUntil\<close> get one name each:
  \<open>_ptr\<close> for the C-array overload, \<open>_whole\<close> for the one-argument
  \<open>makeSlice(cont)\<close>.
\<close>

definition makeSlice :: "'a heap \<Rightarrow> nat \<Rightarrow> size_t \<Rightarrow> size_t \<Rightarrow> failure + Slice" where
  "makeSlice h cont begin end = Slice_ctor h cont begin end"

definition makeSlice_ptr :: "ptr \<Rightarrow> size_t \<Rightarrow> size_t \<Rightarrow> failure + PtrSlice" where
  "makeSlice_ptr p begin end = PtrSlice_ctor p begin end"

definition makeSlice_whole :: "'a heap \<Rightarrow> nat \<Rightarrow> failure + Slice" where
  "makeSlice_whole h cont = Slice_ctor h cont 0 (cont_size (h cont))"

definition makeSliceFrom :: "'a heap \<Rightarrow> nat \<Rightarrow> size_t \<Rightarrow> failure + Slice" where
  "makeSliceFrom h cont begin = Slice_ctor h cont begin (cont_size (h cont))"

definition makeSliceUntil :: "'a heap \<Rightarrow> nat \<Rightarrow> size_t \<Rightarrow> failure + Slice" where
  "makeSliceUntil h cont end = Slice_ctor h cont 0 end"

definition makeSliceUntil_ptr :: "ptr \<Rightarrow> size_t \<Rightarrow> failure + PtrSlice" where
  "makeSliceUntil_ptr p end = PtrSlice_ctor p 0 end"

subsection \<open>Traversal\<close>

text \<open>
  The loop that the header's documentation runs over a slice,
  \<open>for (it = s.begin(); it != s.end(); ++it) visit(*it)\<close>, collecting the
  references it visits. Each step dereferences the iterator and increments it;
  both are undefined outside the object, so the position cannot pass the
  object's end and the loop is total.
\<close>

function range_for :: "'a heap \<Rightarrow> iterator \<Rightarrow> iterator \<Rightarrow> failure + lvalue list" where
  "range_for h it fin =
     (if it = fin then Inr []
      else case deref h it of
             Inl e \<Rightarrow> Inl e
           | Inr r \<Rightarrow>
               (case ptr_add h it 1 of
                  Inl e \<Rightarrow> Inl e
                | Inr it' \<Rightarrow>
                    (case range_for h it' fin of
                       Inl e \<Rightarrow> Inl e
                     | Inr rs \<Rightarrow> Inr (r # rs))))"
  by pat_completeness auto
termination
  by (relation "measure (\<lambda>(h, it, fin). case it of nullptr \<Rightarrow> 0 | Ptr a k \<Rightarrow> length (h a) - k)")
     (auto simp: deref_def ptr_add_def split: ptr.splits if_splits)

declare range_for.simps [simp del]

text \<open>
  The range-based loop \<open>for (auto& elem : slice)\<close> of the header's example
  obtains \<open>begin()\<close> and \<open>end()\<close> once and runs the loop between them.
\<close>

definition Slice_range_for :: "'a heap \<Rightarrow> Slice \<Rightarrow> failure + lvalue list" where
  "Slice_range_for h s =
     (case Slice_begin h s of
        Inl e \<Rightarrow> Inl e
      | Inr first \<Rightarrow>
          (case Slice_end h s of Inl e \<Rightarrow> Inl e | Inr fin \<Rightarrow> range_for h first fin))"

definition PtrSlice_range_for :: "'a heap \<Rightarrow> PtrSlice \<Rightarrow> failure + lvalue list" where
  "PtrSlice_range_for h s =
     (case PtrSlice_begin h s of
        Inl e \<Rightarrow> Inl e
      | Inr first \<Rightarrow>
          (case PtrSlice_end h s of Inl e \<Rightarrow> Inl e | Inr fin \<Rightarrow> range_for h first fin))"

subsection \<open>Writing through a slice\<close>

text \<open>
  The statement \<open>s.at(index) = x\<close>: \<open>at\<close> runs first, and the assignment
  through the reference it returns runs only when \<open>at\<close> has returned. The
  result is the outcome and the store the statement leaves behind.
\<close>

definition Slice_at_assign ::
  "'a heap \<Rightarrow> Slice \<Rightarrow> size_t \<Rightarrow> 'a \<Rightarrow> (failure + unit) \<times> 'a heap" where
  "Slice_at_assign h s index x =
     (case Slice_at h s index of
        Inl e \<Rightarrow> (Inl e, h)
      | Inr r \<Rightarrow> (case store h r x of Inl e \<Rightarrow> (Inl e, h) | Inr h' \<Rightarrow> (Inr (), h')))"

subsection \<open>Calls as state transformers\<close>

text \<open>
  The functions above take the slice and the store as arguments and return a
  result. To say what a call leaves behind, the members are embedded once more
  with the state written out: a call runs on the state before it, the object
  \<open>self\<close> (that is \<open>*this\<close>) and the store \<open>objs\<close>, and its outcome carries the
  state after it, whether the call returns or throws. Undefined behaviour has
  no state after it. \<open>observe\<close> is a step of the library or the language that
  only reads: the container's \<open>size()\<close>, \<open>at\<close> and \<open>begin()\<close>, \<open>std::advance\<close>
  on a local iterator, pointer arithmetic and the loop over iterators.
\<close>

record ('v, 'a) config =
  self :: 'v
  objs :: "'a heap"

datatype ('r, 's) outcome = Returns 'r 's | Throws failure 's | Undefined

definition post :: "('r, 's) outcome \<Rightarrow> 's option" where
  "post out = (case out of Returns _ s \<Rightarrow> Some s | Throws _ s \<Rightarrow> Some s | Undefined \<Rightarrow> None)"

definition then_call ::
  "('r, 's) outcome \<Rightarrow> ('r \<Rightarrow> 's \<Rightarrow> ('q, 's) outcome) \<Rightarrow> ('q, 's) outcome" where
  "then_call out f =
     (case out of Returns x s \<Rightarrow> f x s | Throws e s \<Rightarrow> Throws e s | Undefined \<Rightarrow> Undefined)"

definition observe :: "failure + 'r \<Rightarrow> 's \<Rightarrow> ('r, 's) outcome" where
  "observe r s =
     (case r of
        Inr x \<Rightarrow> Returns x s
      | Inl e \<Rightarrow> (case e of undefined_behaviour \<Rightarrow> Undefined | _ \<Rightarrow> Throws e s))"

text \<open>
  \<open>calculateSubSliceBounds\<close> assigns to its two reference parameters, so they
  are part of the state it runs on; their values are part of its outcome also
  when it throws.
\<close>

definition rangeCheck_st ::
  "size_t \<Rightarrow> ('z SliceBase_scheme, 'a) config
     \<Rightarrow> (unit, ('z SliceBase_scheme, 'a) config) outcome" where
  "rangeCheck_st index st =
     (if index \<ge> SliceBase_size (self st)
      then Throws (out_of_range ''Index outside of the slice'') st
      else Returns () st)"

definition calculateSubSliceBounds_st ::
  "size_t \<Rightarrow> size_t \<Rightarrow> ('z SliceBase_scheme, 'a) config
     \<Rightarrow> (unit, (size_t \<times> size_t) \<times> ('z SliceBase_scheme, 'a) config) outcome" where
  "calculateSubSliceBounds_st begin end st =
     (if begin \<ge> SliceBase_size (self st) \<or> end > SliceBase_size (self st)
      then Throws (out_of_range ''sub-Slice index out of range'') ((begin, end), st)
      else let begin' = begin + m_begin (self st);
               end' = end + m_begin (self st)
           in if end' > m_end (self st)
              then Throws (out_of_range ''sub-Slice index out of range'') ((begin', end'), st)
              else Returns () ((begin', end'), st))"

text \<open>
  A constructor runs on the store and returns the new object; when it throws,
  there is no object. \<open>subSlice\<close> hands copies of its arguments to
  \<open>calculateSubSliceBounds\<close>; they end with the call.
\<close>

definition Slice_ctor_st ::
  "nat \<Rightarrow> size_t \<Rightarrow> size_t \<Rightarrow> 'a heap \<Rightarrow> (Slice, 'a heap) outcome" where
  "Slice_ctor_st cont begin end h =
     (if begin \<ge> end then Throws (out_of_range ''Begin must be smaller than end'') h
      else if end > cont_size (h cont)
      then Throws (out_of_range ''End must not be larger than the container.'') h
      else Returns \<lparr>m_begin = begin, m_end = end, m_cont = cont\<rparr> h)"

definition Slice_at_st ::
  "size_t \<Rightarrow> (Slice, 'a) config \<Rightarrow> (lvalue, (Slice, 'a) config) outcome" where
  "Slice_at_st index st =
     then_call (rangeCheck_st index st)
       (\<lambda>_ st'. observe (cont_at (objs st') (m_cont (self st')) (m_begin (self st') + index)) st')"

definition Slice_subSlice_st ::
  "size_t \<Rightarrow> size_t \<Rightarrow> (Slice, 'a) config \<Rightarrow> (Slice, (Slice, 'a) config) outcome" where
  "Slice_subSlice_st begin end st =
     (case calculateSubSliceBounds_st begin end st of
        Returns _ ((begin', end'), st') \<Rightarrow>
          (case Slice_ctor_st (m_cont (self st')) begin' end' (objs st') of
             Returns t h \<Rightarrow> Returns t (st'\<lparr>objs := h\<rparr>)
           | Throws e h \<Rightarrow> Throws e (st'\<lparr>objs := h\<rparr>)
           | Undefined \<Rightarrow> Undefined)
      | Throws e (_, st') \<Rightarrow> Throws e st'
      | Undefined \<Rightarrow> Undefined)"

definition Slice_cbegin_st :: "(Slice, 'a) config \<Rightarrow> (iterator, (Slice, 'a) config) outcome" where
  "Slice_cbegin_st st =
     observe (advance (objs st) (cont_begin (m_cont (self st))) (m_begin (self st))) st"

definition Slice_begin_st :: "(Slice, 'a) config \<Rightarrow> (iterator, (Slice, 'a) config) outcome" where
  "Slice_begin_st st =
     observe (advance (objs st) (cont_begin (m_cont (self st))) (m_begin (self st))) st"

definition Slice_cend_st :: "(Slice, 'a) config \<Rightarrow> (iterator, (Slice, 'a) config) outcome" where
  "Slice_cend_st st =
     observe (advance (objs st) (cont_begin (m_cont (self st))) (m_end (self st))) st"

definition Slice_end_st :: "(Slice, 'a) config \<Rightarrow> (iterator, (Slice, 'a) config) outcome" where
  "Slice_end_st st =
     observe (advance (objs st) (cont_begin (m_cont (self st))) (m_end (self st))) st"

definition Slice_range_for_st ::
  "(Slice, 'a) config \<Rightarrow> (lvalue list, (Slice, 'a) config) outcome" where
  "Slice_range_for_st st =
     then_call (Slice_begin_st st)
       (\<lambda>first st1. then_call (Slice_end_st st1)
          (\<lambda>fin st2. observe (range_for (objs st2) first fin) st2))"

definition PtrSlice_ctor_st ::
  "ptr \<Rightarrow> size_t \<Rightarrow> size_t \<Rightarrow> 'a heap \<Rightarrow> (PtrSlice, 'a heap) outcome" where
  "PtrSlice_ctor_st p begin end h =
     (if begin \<ge> end then Throws (out_of_range ''Begin must be smaller than end'') h
      else if p = nullptr then Throws (invalid_argument ''ptr must not be null.'') h
      else Returns \<lparr>m_begin = begin, m_end = end, m_ptr = p\<rparr> h)"

definition PtrSlice_at_st ::
  "size_t \<Rightarrow> (PtrSlice, 'a) config \<Rightarrow> (lvalue, (PtrSlice, 'a) config) outcome" where
  "PtrSlice_at_st index st =
     then_call (rangeCheck_st index st)
       (\<lambda>_ st'. observe (ptr_index (objs st') (m_ptr (self st')) (m_begin (self st') + index)) st')"

definition PtrSlice_cbegin_st :: "(PtrSlice, 'a) config \<Rightarrow> (ptr, (PtrSlice, 'a) config) outcome" where
  "PtrSlice_cbegin_st st = observe (ptr_add (objs st) (m_ptr (self st)) (uint (m_begin (self st)))) st"

definition PtrSlice_begin_st :: "(PtrSlice, 'a) config \<Rightarrow> (ptr, (PtrSlice, 'a) config) outcome" where
  "PtrSlice_begin_st st = observe (ptr_add (objs st) (m_ptr (self st)) (uint (m_begin (self st)))) st"

definition PtrSlice_cend_st :: "(PtrSlice, 'a) config \<Rightarrow> (ptr, (PtrSlice, 'a) config) outcome" where
  "PtrSlice_cend_st st = observe (ptr_add (objs st) (m_ptr (self st)) (uint (m_end (self st)))) st"

definition PtrSlice_end_st :: "(PtrSlice, 'a) config \<Rightarrow> (ptr, (PtrSlice, 'a) config) outcome" where
  "PtrSlice_end_st st = observe (ptr_add (objs st) (m_ptr (self st)) (uint (m_end (self st)))) st"

definition PtrSlice_range_for_st ::
  "(PtrSlice, 'a) config \<Rightarrow> (lvalue list, (PtrSlice, 'a) config) outcome" where
  "PtrSlice_range_for_st st =
     then_call (PtrSlice_begin_st st)
       (\<lambda>first st1. then_call (PtrSlice_end_st st1)
          (\<lambda>fin st2. observe (range_for (objs st2) first fin) st2))"

definition PtrSlice_subSlice_st ::
  "size_t \<Rightarrow> size_t \<Rightarrow> (PtrSlice, 'a) config \<Rightarrow> (PtrSlice, (PtrSlice, 'a) config) outcome" where
  "PtrSlice_subSlice_st begin end st =
     (case calculateSubSliceBounds_st begin end st of
        Returns _ ((begin', end'), st') \<Rightarrow>
          (case PtrSlice_ctor_st (m_ptr (self st')) begin' end' (objs st') of
             Returns t h \<Rightarrow> Returns t (st'\<lparr>objs := h\<rparr>)
           | Throws e h \<Rightarrow> Throws e (st'\<lparr>objs := h\<rparr>)
           | Undefined \<Rightarrow> Undefined)
      | Throws e (_, st') \<Rightarrow> Throws e st'
      | Undefined \<Rightarrow> Undefined)"

subsection \<open>The example of the header's documentation\<close>

text \<open>\<open>std::vector<int> vec = {0, 1, 2, 3, 4};\<close>, as object 0 of a store.\<close>

definition vec :: "int heap" where
  "vec = (\<lambda>_. [])(0 := [0, 1, 2, 3, 4])"

section \<open>Shared lemmas\<close>

text \<open>Index arithmetic below a slice's upper bound does not wrap around.\<close>

lemma add_in_range:
  fixes b e i :: size_t
  assumes "b < e" "i < e - b"
  shows "unat (b + i) = unat b + unat i" "b + i < e" "b \<le> b + i"
  using assms by unat_arith+

lemma add_in_range_le:
  fixes b e i :: size_t
  assumes "b < e" "i \<le> e - b"
  shows "unat (i + b) = unat i + unat b" "i + b \<le> e" 
  using assms by unat_arith+

lemma unat_cont_size_le: "unat (cont_size c) \<le> length c"
  unfolding cont_size_def by (metis le_unat_uoi linorder_linear)

lemma SliceBase_ctor_Inr_iff:
  "SliceBase_ctor b e = Inr s \<longleftrightarrow> b < e \<and> s = \<lparr>m_begin = b, m_end = e\<rparr>"
  by (auto simp: SliceBase_ctor_def)

lemma Slice_ctor_Inr_iff:
  "Slice_ctor h c b e = Inr s \<longleftrightarrow>
     b < e \<and> e \<le> cont_size (h c) \<and> s = \<lparr>m_begin = b, m_end = e, m_cont = c\<rparr>"
  by (auto simp: Slice_ctor_def SliceBase_ctor_def)

lemma PtrSlice_ctor_Inr_iff:
  "PtrSlice_ctor p b e = Inr s \<longleftrightarrow>
     b < e \<and> p \<noteq> nullptr \<and> s = \<lparr>m_begin = b, m_end = e, m_ptr = p\<rparr>"
  by (auto simp: PtrSlice_ctor_def SliceBase_ctor_def)

lemma calculateSubSliceBounds_ok:
  assumes "m_begin s < m_end s" "subBegin < SliceBase_size s" "subEnd \<le> SliceBase_size s"
  shows "calculateSubSliceBounds s subBegin subEnd = Inr (subBegin + m_begin s, subEnd + m_begin s)"
proof -
  have "subEnd + m_begin s \<le> m_end s"
    using assms add_in_range_le(2) [of "m_begin s" "m_end s" subEnd]
    by (simp add: SliceBase_size_def)
  then show ?thesis
    using assms by (simp add: calculateSubSliceBounds_def Let_def not_less [symmetric])
qed

text \<open>The index check, and \<open>at\<close> inside a slice that fits its container.\<close>

lemma rangeCheck_ok: "index < SliceBase_size s \<Longrightarrow> rangeCheck s index = Inr ()"
  by (simp add: rangeCheck_def not_le [symmetric])

lemma rangeCheck_fail:
  "SliceBase_size s \<le> index \<Longrightarrow>
     rangeCheck s index = Inl (out_of_range ''Index outside of the slice'')"
  by (simp add: rangeCheck_def)

lemma Slice_at_in_range:
  assumes "b < e" and "e \<le> cont_size (h c)" and "i < e - b"
  shows "Slice_at h \<lparr>m_begin = b, m_end = e, m_cont = c\<rparr> i = Inr (c, unat b + unat i)"
    and "unat b + unat i < length (h c)"
proof -
  have lt: "b + i < e" and u: "unat (b + i) = unat b + unat i"
    using assms(1,3) by (rule add_in_range(2), rule add_in_range(1))
  have "b + i < cont_size (h c)"
    using lt assms(2) by simp
  then show "Slice_at h \<lparr>m_begin = b, m_end = e, m_cont = c\<rparr> i = Inr (c, unat b + unat i)"
    using assms(3) u
    by (simp add: Slice_at_def rangeCheck_ok SliceBase_size_def cont_at_def not_le [symmetric])
  have "unat (b + i) < unat (cont_size (h c))"
    using \<open>b + i < cont_size (h c)\<close> by (simp add: word_less_nat_alt)
  then show "unat b + unat i < length (h c)"
    using unat_cont_size_le [of "h c"] u by simp
qed

text \<open>When the sub-slice operations succeed, and with which bounds.\<close>

lemma sub_bounds_order:
  fixes a b b0 e :: size_t
  assumes "b0 < e" "a < e - b0" "b \<le> e - b0"
  shows "a + b0 < b + b0 \<longleftrightarrow> a < b"
  using assms by unat_arith

lemma sub_index_in_range:
  fixes a b k sz :: size_t
  assumes "a < b" "b \<le> sz" "k < b - a"
  shows "a + k < sz"
  using assms by unat_arith

lemma calculateSubSliceBounds_Inr_iff:
  assumes "m_begin s < m_end s"
  shows "calculateSubSliceBounds s a b = Inr r \<longleftrightarrow>
           a < SliceBase_size s \<and> b \<le> SliceBase_size s \<and> r = (a + m_begin s, b + m_begin s)"
proof (cases "a < SliceBase_size s \<and> b \<le> SliceBase_size s")
  case True
  then show ?thesis
    using calculateSubSliceBounds_ok [OF assms, of a b] by auto
next
  case False
  then have "calculateSubSliceBounds s a b = Inl (out_of_range ''sub-Slice index out of range'')"
    by (auto simp: calculateSubSliceBounds_def)
  with False show ?thesis by auto
qed

lemma Slice_subSlice_Inr_iff:
  assumes "m_begin s < m_end s"
  shows "Slice_subSlice h s a b = Inr s' \<longleftrightarrow>
           a < b \<and> b \<le> SliceBase_size s \<and> b + m_begin s \<le> cont_size (h (m_cont s))
         \<and> s' = \<lparr>m_begin = a + m_begin s, m_end = b + m_begin s, m_cont = m_cont s\<rparr>"
proof (cases "a < SliceBase_size s \<and> b \<le> SliceBase_size s")
  case True
  then have ord: "a + m_begin s < b + m_begin s \<longleftrightarrow> a < b"
    using sub_bounds_order [OF assms, of a b] by (simp add: SliceBase_size_def)
  have "Slice_subSlice h s a b = Slice_ctor h (m_cont s) (a + m_begin s) (b + m_begin s)"
    using True calculateSubSliceBounds_ok [OF assms, of a b] by (simp add: Slice_subSlice_def)
  then show ?thesis
    using True ord by (auto simp: Slice_ctor_Inr_iff)
next
  case False
  then have "calculateSubSliceBounds s a b = Inl (out_of_range ''sub-Slice index out of range'')"
    by (auto simp: calculateSubSliceBounds_def)
  then have "Slice_subSlice h s a b = Inl (out_of_range ''sub-Slice index out of range'')"
    by (simp add: Slice_subSlice_def)
  with False show ?thesis by auto
qed

lemma PtrSlice_subSlice_Inr_iff:
  assumes "m_begin s < m_end s"
  shows "PtrSlice_subSlice s a b = Inr s' \<longleftrightarrow>
           a < b \<and> b \<le> SliceBase_size s \<and> m_ptr s \<noteq> nullptr
         \<and> s' = \<lparr>m_begin = a + m_begin s, m_end = b + m_begin s, m_ptr = m_ptr s\<rparr>"
proof (cases "a < SliceBase_size s \<and> b \<le> SliceBase_size s")
  case True
  then have ord: "a + m_begin s < b + m_begin s \<longleftrightarrow> a < b"
    using sub_bounds_order [OF assms, of a b] by (simp add: SliceBase_size_def)
  have "PtrSlice_subSlice s a b = PtrSlice_ctor (m_ptr s) (a + m_begin s) (b + m_begin s)"
    using True calculateSubSliceBounds_ok [OF assms, of a b] by (simp add: PtrSlice_subSlice_def)
  then show ?thesis
    using True ord by (auto simp: PtrSlice_ctor_Inr_iff)
next
  case False
  then have "calculateSubSliceBounds s a b = Inl (out_of_range ''sub-Slice index out of range'')"
    by (auto simp: calculateSubSliceBounds_def)
  then have "PtrSlice_subSlice s a b = Inl (out_of_range ''sub-Slice index out of range'')"
    by (simp add: PtrSlice_subSlice_def)
  with False show ?thesis by auto
qed

lemma ptr_index_not_out_of_range: "ptr_index h p n \<noteq> Inl (out_of_range msg)"
  by (auto simp: ptr_index_def ptr_add_def deref_def split: ptr.splits sum.splits if_splits)

text \<open>A sub-slice lies inside its parent.\<close>

lemma subSlice_within:
  fixes a b b0 e :: size_t
  assumes "b0 < e" "a < b" "b \<le> e - b0"
  shows "b0 \<le> a + b0" "a + b0 < b + b0" "b + b0 \<le> e"
  using assms by unat_arith+

text \<open>
  Iterator arithmetic: an offset below \<open>2^63\<close> survives the conversion to the
  signed difference type, and pointer addition inside an array is defined.
\<close>

lemma sint_small:
  fixes n :: size_t
  assumes "unat n < 2 ^ 63"
  shows "sint n = uint n"
proof -
  have "int (unat n) < int (2 ^ 63)"
    using assms by (simp only: of_nat_less_iff)
  then have "uint n < 2 ^ 63"
    by simp
  then have "signed_take_bit 63 (uint n) = uint n"
    by (intro signed_take_bit_int_eq_self) (simp_all add: order_trans [of _ 0])
  then show ?thesis
    by (simp add: sint_uint)
qed

lemma ptr_add_uint:
  assumes "k + unat (n :: size_t) \<le> length (h a)"
  shows "ptr_add h (Ptr a k) (uint n) = Inr (Ptr a (k + unat n))"
proof -
  have eq: "int k + uint n = int (k + unat n)"
    by simp
  have le: "int k + uint n \<le> int (length (h a))"
    unfolding eq using assms by (simp only: of_nat_le_iff)
  have pos: "nat (int k + uint n) = k + unat n"
    unfolding eq by (rule nat_int)
  show ?thesis
    by (simp add: ptr_add_def le pos)
qed

lemma range_for_positions:
  "i \<le> j \<Longrightarrow> j \<le> length (h a) \<Longrightarrow>
     range_for h (Ptr a i) (Ptr a j) = Inr (map (Pair a) [i..<j])"
proof (induction "j - i" arbitrary: i)
  case 0
  then show ?case by (subst range_for.simps) simp
next
  case (Suc n)
  then have lt: "i < j" and i: "i < length (h a)"
    by simp_all
  have step: "deref h (Ptr a i) = Inr (a, i)" "ptr_add h (Ptr a i) 1 = Inr (Ptr a (Suc i))"
    using i by (simp_all add: deref_def ptr_add_def nat_add_distrib)
  have "range_for h (Ptr a (Suc i)) (Ptr a j) = Inr (map (Pair a) [Suc i..<j])"
    using Suc.hyps(2) lt Suc.prems(2) by (intro Suc.hyps(1)) simp_all
  then show ?case
    using lt step by (subst range_for.simps) (simp add: upt_conv_Cons)
qed

lemma RETURN_ITERATOR_in_range:
  assumes "unat n \<le> length (h c)" and "length (h c) < 2 ^ 63"
  shows "RETURN_ITERATOR h c n = Inr (Ptr c (unat n))"
proof -
  have "sint n = uint n"
    using assms by (intro sint_small) simp
  then show ?thesis
    using ptr_add_uint [of 0 n h c] assms(1)
    by (simp add: RETURN_ITERATOR_def advance_def cont_begin_def)
qed

text \<open>
  The state after a step that only reads, and the two embeddings of the
  constructors and of \<open>at\<close> and \<open>subSlice\<close> side by side.
\<close>

lemma post_observe: "observe r s = Undefined \<or> post (observe r s) = Some s"
  by (simp add: observe_def post_def split: sum.splits failure.splits)

lemma post_then_call:
  assumes "out = Undefined \<or> post out = Some s"
    and "\<And>x. f x s = Undefined \<or> post (f x s) = Some s"
  shows "then_call out f = Undefined \<or> post (then_call out f) = Some s"
  using assms by (cases out) (auto simp: then_call_def post_def)

lemma post_rangeCheck_st: "post (rangeCheck_st i st) = Some st"
  by (simp add: rangeCheck_st_def post_def)

lemma Slice_ctor_st_eq: "Slice_ctor_st c b e h = observe (Slice_ctor h c b e) h"
  by (auto simp: Slice_ctor_st_def Slice_ctor_def SliceBase_ctor_def observe_def)

lemma PtrSlice_ctor_st_eq: "PtrSlice_ctor_st p b e h = observe (PtrSlice_ctor p b e) h"
  by (auto simp: PtrSlice_ctor_st_def PtrSlice_ctor_def SliceBase_ctor_def observe_def)

lemma Slice_subSlice_st_eq:
  "Slice_subSlice_st a b st = observe (Slice_subSlice (objs st) (self st) a b) st"
  by (auto simp: Slice_subSlice_st_def calculateSubSliceBounds_st_def Slice_ctor_st_def
      Slice_subSlice_def calculateSubSliceBounds_def Slice_ctor_def SliceBase_ctor_def
      observe_def Let_def)

lemma PtrSlice_subSlice_st_eq:
  "PtrSlice_subSlice_st a b st = observe (PtrSlice_subSlice (self st) a b) st"
  by (auto simp: PtrSlice_subSlice_st_def calculateSubSliceBounds_st_def PtrSlice_ctor_st_def
      PtrSlice_subSlice_def calculateSubSliceBounds_def PtrSlice_ctor_def SliceBase_ctor_def
      observe_def Let_def)

lemma observe_Returns_iff: "observe r s = Returns x s' \<longleftrightarrow> r = Inr x \<and> s' = s"
  by (auto simp: observe_def split: sum.splits failure.splits)

lemma Slice_at_st_eq: "Slice_at_st i st = observe (Slice_at (objs st) (self st) i) st"
  by (simp add: Slice_at_st_def rangeCheck_st_def then_call_def observe_def Slice_at_def
      rangeCheck_def)

lemma PtrSlice_at_st_eq: "PtrSlice_at_st i st = observe (PtrSlice_at (objs st) (self st) i) st"
  by (simp add: PtrSlice_at_st_def rangeCheck_st_def then_call_def observe_def PtrSlice_at_def
      rangeCheck_def)

section \<open>Construction\<close>

text \<open>
  Claim C3. Construction throws \<open>std::out_of_range\<close> (the base constructor's
  "Begin must be smaller than end") whenever \<open>begin >= end\<close>: for a container of
  any size and for any pointer, the null pointer included, since the base is
  constructed before the pointer is looked at. For a container and \<open>begin < end\<close>,
  construction throws \<open>std::out_of_range\<close> when \<open>end > cont.size()\<close>, and when
  \<open>end <= cont.size()\<close> it succeeds with a slice of size \<open>end - begin\<close>.
\<close>

theorem construction_bounds:
  "(begin \<ge> end \<longrightarrow>
      Slice_ctor h cont begin end = Inl (out_of_range ''Begin must be smaller than end'')
    \<and> PtrSlice_ctor p begin end = Inl (out_of_range ''Begin must be smaller than end''))
 \<and> (begin < end \<and> end > cont_size (h cont) \<longrightarrow>
      Slice_ctor h cont begin end
        = Inl (out_of_range ''End must not be larger than the container.''))
 \<and> (begin < end \<and> end \<le> cont_size (h cont) \<longrightarrow>
      Slice_ctor h cont begin end = Inr \<lparr>m_begin = begin, m_end = end, m_cont = cont\<rparr>
    \<and> SliceBase_size \<lparr>m_begin = begin, m_end = end, m_cont = cont\<rparr> = end - begin)"
  by (auto simp: Slice_ctor_def PtrSlice_ctor_def SliceBase_ctor_def SliceBase_size_def)

theorem construction_bounds_witness:
  "Slice_ctor vec 0 3 3 = Inl (out_of_range ''Begin must be smaller than end'')
 \<and> PtrSlice_ctor nullptr 3 3 = Inl (out_of_range ''Begin must be smaller than end'')
 \<and> Slice_ctor vec 0 1 6 = Inl (out_of_range ''End must not be larger than the container.'')
 \<and> Slice_ctor vec 0 1 3 = Inr \<lparr>m_begin = 1, m_end = 3, m_cont = 0\<rparr>
 \<and> SliceBase_size \<lparr>m_begin = 1, m_end = 3, m_cont = 0\<rparr> = 2"
  using construction_bounds [of 3 3 vec 0 nullptr]
    construction_bounds [of 6 1 vec 0 nullptr]
    construction_bounds [of 3 1 vec 0 nullptr]
  by (simp add: vec_def cont_size_def)

text \<open>
  Claim C7. For \<open>begin < end\<close>, constructing a slice of a C array from the null
  pointer throws \<open>std::invalid_argument\<close>, and from any other pointer it
  succeeds: the constructor does not see the array, so \<open>end\<close> is not compared
  with its length.
\<close>

theorem pointer_construction:
  "begin < end \<Longrightarrow>
     PtrSlice_ctor nullptr begin end = Inl (invalid_argument ''ptr must not be null.'')
   \<and> makeSlice_ptr nullptr begin end = Inl (invalid_argument ''ptr must not be null.'')
   \<and> PtrSlice_ctor (Ptr a k) begin end
       = Inr \<lparr>m_begin = begin, m_end = end, m_ptr = Ptr a k\<rparr>
   \<and> makeSlice_ptr (Ptr a k) begin end
       = Inr \<lparr>m_begin = begin, m_end = end, m_ptr = Ptr a k\<rparr>"
  by (simp add: makeSlice_ptr_def PtrSlice_ctor_def SliceBase_ctor_def)

theorem pointer_construction_witness:
  "(2 :: size_t) < 9
   \<and> PtrSlice_ctor nullptr 2 9 = Inl (invalid_argument ''ptr must not be null.'')
   \<and> PtrSlice_ctor (Ptr 0 0) 2 9 = Inr \<lparr>m_begin = 2, m_end = 9, m_ptr = Ptr 0 0\<rparr>"
  using pointer_construction [of 2 9 0 0] by simp

text \<open>
  Claim C9. For a container whose \<open>size()\<close> is 0, \<open>makeSlice(cont)\<close> throws
  \<open>std::out_of_range\<close>: its bounds are \<open>0\<close> and \<open>cont.size() = 0\<close>. The other
  container factories throw \<open>std::out_of_range\<close> on such a container as well.
\<close>

theorem makeSlice_empty_container:
  "cont_size (h cont) = 0 \<Longrightarrow>
     makeSlice_whole h cont = Inl (out_of_range ''Begin must be smaller than end'')
   \<and> makeSliceFrom h cont begin = Inl (out_of_range ''Begin must be smaller than end'')
   \<and> (\<exists>msg. makeSliceUntil h cont end = Inl (out_of_range msg))
   \<and> (\<exists>msg. makeSlice h cont begin end = Inl (out_of_range msg))"
  by (simp add: makeSlice_whole_def makeSliceFrom_def makeSliceUntil_def makeSlice_def
      Slice_ctor_def SliceBase_ctor_def word_gt_0)

theorem makeSlice_empty_container_witness:
  "cont_size (vec 1) = 0
   \<and> makeSlice_whole vec 1 = Inl (out_of_range ''Begin must be smaller than end'')"
  using makeSlice_empty_container [of vec 1] by (simp add: vec_def cont_size_def)

section \<open>Element access\<close>

text \<open>
  Claim C1. For a slice constructed over a container with bounds \<open>[begin, end)\<close>
  and an index \<open>i < size()\<close>, \<open>at(i)\<close> returns the reference to the container's
  element at position \<open>begin + i\<close>, the same as the container's own
  \<open>at(begin + i)\<close>; reading through it gives that element, and assigning through
  it replaces that element and leaves every other element of every object as it
  was.
\<close>

theorem Slice_at_element:
  assumes "Slice_ctor h cont begin end = Inr s" and "i < SliceBase_size s"
  shows "Slice_at h s i = Inr (cont, unat begin + unat i)
       \<and> Slice_at h s i = cont_at h cont (begin + i)
       \<and> unat begin + unat i < length (h cont)
       \<and> load h (cont, unat begin + unat i) = Inr (h cont ! (unat begin + unat i))
       \<and> Slice_at_assign h s i x
           = (Inr (), h(cont := (h cont)[unat begin + unat i := x]))
       \<and> load (snd (Slice_at_assign h s i x)) (cont, unat begin + unat i) = Inr x
       \<and> (\<forall>c k. (c, k) \<noteq> (cont, unat begin + unat i) \<longrightarrow>
             load (snd (Slice_at_assign h s i x)) (c, k) = load h (c, k))"
proof -
  from assms(1) have be: "begin < end" and sz: "end \<le> cont_size (h cont)"
    and s: "s = \<lparr>m_begin = begin, m_end = end, m_cont = cont\<rparr>"
    by (simp_all add: Slice_ctor_Inr_iff)
  from assms(2) s have i: "i < end - begin"
    by (simp add: SliceBase_size_def)
  have at: "Slice_at h s i = Inr (cont, unat begin + unat i)"
    and len: "unat begin + unat i < length (h cont)"
    unfolding s using be sz i by (rule Slice_at_in_range(1), rule Slice_at_in_range(2))
  have "Slice_at h s i = cont_at h cont (begin + i)"
    using assms(2) by (simp add: Slice_at_def rangeCheck_ok s)
  moreover have asg: "Slice_at_assign h s i x
      = (Inr (), h(cont := (h cont)[unat begin + unat i := x]))"
    using at len by (simp add: Slice_at_assign_def store_def)
  moreover have "load (snd (Slice_at_assign h s i x)) (cont, unat begin + unat i) = Inr x"
    using len by (simp add: asg load_def)
  moreover have "\<forall>c k. (c, k) \<noteq> (cont, unat begin + unat i) \<longrightarrow>
             load (snd (Slice_at_assign h s i x)) (c, k) = load h (c, k)"
    by (simp add: asg load_def)
  ultimately show ?thesis
    using at len by (simp add: load_def)
qed

theorem Slice_at_element_witness:
  "Slice_ctor vec 0 1 3 = Inr \<lparr>m_begin = 1, m_end = 3, m_cont = 0\<rparr>
   \<and> Slice_at vec \<lparr>m_begin = 1, m_end = 3, m_cont = 0\<rparr> 1 = Inr (0, 2)
   \<and> load vec (0, 2) = Inr 2
   \<and> Slice_at_assign vec \<lparr>m_begin = 1, m_end = 3, m_cont = 0\<rparr> 1 6
       = (Inr (), vec(0 := [0, 1, 6, 3, 4]))"
  using Slice_at_element [of vec 0 1 3 "\<lparr>m_begin = 1, m_end = 3, m_cont = 0\<rparr>" 1 6]
  by (simp add: vec_def Slice_ctor_Inr_iff SliceBase_size_def cont_size_def load_def)

text \<open>
  Claim C4. For a constructed slice, of a container or of a C array, \<open>at(i)\<close>
  throws the \<open>std::out_of_range\<close> of the index check ("Index outside of the
  slice") exactly when \<open>i >= size()\<close>. For \<open>i < size()\<close> the check passes and
  the result is that of the store's own access at \<open>begin_ + i\<close>:
  the container's \<open>at\<close>, or the pointer's subscript.
\<close>

theorem at_index_check:
  assumes "Slice_ctor h cont begin end = Inr s" and "PtrSlice_ctor p begin' end' = Inr t"
  shows "(Slice_at h s i = Inl (out_of_range ''Index outside of the slice'')
            \<longleftrightarrow> i \<ge> SliceBase_size s)
       \<and> (PtrSlice_at h' t i = Inl (out_of_range ''Index outside of the slice'')
            \<longleftrightarrow> i \<ge> SliceBase_size t)
       \<and> (i < SliceBase_size s \<longrightarrow>
            rangeCheck s i = Inr ()
          \<and> Slice_at h s i = cont_at h (m_cont s) (m_begin s + i)
          \<and> Slice_at h s i = Inr (cont, unat begin + unat i))
       \<and> (i < SliceBase_size t \<longrightarrow>
            rangeCheck t i = Inr ()
          \<and> PtrSlice_at h' t i = ptr_index h' (m_ptr t) (m_begin t + i))"
proof -
  from assms(1) have be: "begin < end" and sz: "end \<le> cont_size (h cont)"
    and s: "s = \<lparr>m_begin = begin, m_end = end, m_cont = cont\<rparr>"
    by (simp_all add: Slice_ctor_Inr_iff)
  have in_s: "Slice_at h s i = Inr (cont, unat begin + unat i)" if "i < SliceBase_size s"
    unfolding s using be sz that by (intro Slice_at_in_range(1)) (simp_all add: s SliceBase_size_def)
  have out_s: "Slice_at h s i = Inl (out_of_range ''Index outside of the slice'')"
    if "SliceBase_size s \<le> i"
    using that by (simp add: Slice_at_def rangeCheck_fail)
  have in_t: "PtrSlice_at h' t i = ptr_index h' (m_ptr t) (m_begin t + i)"
    if "i < SliceBase_size t"
    using that by (simp add: PtrSlice_at_def rangeCheck_ok)
  have out_t: "PtrSlice_at h' t i = Inl (out_of_range ''Index outside of the slice'')"
    if "SliceBase_size t \<le> i"
    using that by (simp add: PtrSlice_at_def rangeCheck_fail)
  have 1: "Slice_at h s i = Inl (out_of_range ''Index outside of the slice'')
            \<longleftrightarrow> i \<ge> SliceBase_size s"
    using in_s out_s by (cases "i < SliceBase_size s") (simp_all add: not_less)
  have 2: "PtrSlice_at h' t i = Inl (out_of_range ''Index outside of the slice'')
            \<longleftrightarrow> i \<ge> SliceBase_size t"
    using in_t out_t ptr_index_not_out_of_range [of h' "m_ptr t" "m_begin t + i"]
    by (cases "i < SliceBase_size t") (simp_all add: not_less)
  have 3: "i < SliceBase_size s \<longrightarrow>
            rangeCheck s i = Inr ()
          \<and> Slice_at h s i = cont_at h (m_cont s) (m_begin s + i)
          \<and> Slice_at h s i = Inr (cont, unat begin + unat i)"
    using in_s by (simp add: rangeCheck_ok Slice_at_def)
  have 4: "i < SliceBase_size t \<longrightarrow>
            rangeCheck t i = Inr ()
          \<and> PtrSlice_at h' t i = ptr_index h' (m_ptr t) (m_begin t + i)"
    using in_t by (simp add: rangeCheck_ok)
  from 1 2 3 4 show ?thesis by blast
qed

theorem at_index_check_witness:
  "Slice_at vec \<lparr>m_begin = 2, m_end = 5, m_cont = 0\<rparr> 3
     = Inl (out_of_range ''Index outside of the slice'')
   \<and> Slice_at vec \<lparr>m_begin = 2, m_end = 5, m_cont = 0\<rparr> 2 = Inr (0, 4)
   \<and> PtrSlice_at vec \<lparr>m_begin = 2, m_end = 5, m_ptr = Ptr 0 0\<rparr> 3
     = Inl (out_of_range ''Index outside of the slice'')
   \<and> rangeCheck \<lparr>m_begin = 2, m_end = 5, m_ptr = Ptr 0 0\<rparr> 2 = Inr ()"
  using
    at_index_check [of vec 0 2 5 "\<lparr>m_begin = 2, m_end = 5, m_cont = 0\<rparr>"
      "Ptr 0 0" 2 5 "\<lparr>m_begin = 2, m_end = 5, m_ptr = Ptr 0 0\<rparr>" 3 vec]
    at_index_check [of vec 0 2 5 "\<lparr>m_begin = 2, m_end = 5, m_cont = 0\<rparr>"
      "Ptr 0 0" 2 5 "\<lparr>m_begin = 2, m_end = 5, m_ptr = Ptr 0 0\<rparr>" 2 vec]
  by (simp add: Slice_ctor_Inr_iff PtrSlice_ctor_Inr_iff SliceBase_size_def vec_def
      cont_size_def cont_at_def)

section \<open>Sub-slices\<close>

text \<open>
  Claim C10. In \<open>calculateSubSliceBounds\<close>, for a slice with \<open>begin_ < end_\<close> and
  arguments that pass the first check (\<open>begin < size()\<close> and \<open>end <= size()\<close>),
  neither addition of \<open>begin_\<close> overflows \<open>size_t\<close>, the translated end is at
  most \<open>end_\<close>, so the second check does not throw, and the function returns the
  translated bounds.
\<close>

theorem calculateSubSliceBounds_no_overflow:
  assumes "m_begin s < m_end s"
    and "subBegin < SliceBase_size s" and "subEnd \<le> SliceBase_size s"
  shows "unat subBegin + unat (m_begin s) < 2 ^ 64
       \<and> unat subEnd + unat (m_begin s) < 2 ^ 64
       \<and> unat (subBegin + m_begin s) = unat subBegin + unat (m_begin s)
       \<and> unat (subEnd + m_begin s) = unat subEnd + unat (m_begin s)
       \<and> subEnd + m_begin s \<le> m_end s
       \<and> calculateSubSliceBounds s subBegin subEnd
           = Inr (subBegin + m_begin s, subEnd + m_begin s)"
proof -
  have lt: "subBegin \<le> m_end s - m_begin s" and le: "subEnd \<le> m_end s - m_begin s"
    using assms by (simp_all add: SliceBase_size_def)
  have b: "unat (subBegin + m_begin s) = unat subBegin + unat (m_begin s)"
    using assms(1) lt by (rule add_in_range_le(1))
  have e: "unat (subEnd + m_begin s) = unat subEnd + unat (m_begin s)"
    using assms(1) le by (rule add_in_range_le(1))
  have "unat (subBegin + m_begin s) < 2 ^ 64" "unat (subEnd + m_begin s) < 2 ^ 64"
    using unsigned_less [of "subBegin + m_begin s"] unsigned_less [of "subEnd + m_begin s"]
    by simp_all
  moreover have "subEnd + m_begin s \<le> m_end s"
    using assms(1) le by (rule add_in_range_le(2))
  ultimately show ?thesis
    using b e calculateSubSliceBounds_ok [OF assms] by simp
qed

theorem calculateSubSliceBounds_no_overflow_witness:
  "unat (1 :: size_t) + unat (1 :: size_t) < 2 ^ 64
   \<and> calculateSubSliceBounds \<lparr>m_begin = 1, m_end = 3\<rparr> 1 2 = Inr (2, 3)"
  using calculateSubSliceBounds_no_overflow [of "\<lparr>m_begin = 1, m_end = 3\<rparr>" 1 2]
  by (simp add: SliceBase_size_def)

text \<open>
  Claim C5. For a constructed slice, \<open>subSlice(subBegin, subEnd)\<close> with
  \<open>subBegin < subEnd\<close> and \<open>subEnd = size()\<close> succeeds, and its result ends where
  the slice ends. With \<open>subEnd = 0\<close> it throws \<open>std::out_of_range\<close> for every
  \<open>subBegin\<close>: from \<open>calculateSubSliceBounds\<close> when \<open>subBegin >= size()\<close>, and
  otherwise from the constructor of the new slice, whose bounds are not in
  order. With \<open>subBegin >= size()\<close> it throws \<open>std::out_of_range\<close> from
  \<open>calculateSubSliceBounds\<close>.
\<close>

theorem subSlice_edge_cases:
  assumes "Slice_ctor h cont begin end = Inr s" and "PtrSlice_ctor p begin' end' = Inr t"
  shows "(subBegin < subEnd \<and> subEnd = SliceBase_size s \<longrightarrow>
            Slice_subSlice h s subBegin subEnd
              = Inr \<lparr>m_begin = subBegin + begin, m_end = end, m_cont = cont\<rparr>)
       \<and> (subBegin < subEnd \<and> subEnd = SliceBase_size t \<longrightarrow>
            PtrSlice_subSlice t subBegin subEnd
              = Inr \<lparr>m_begin = subBegin + begin', m_end = end', m_ptr = p\<rparr>)
       \<and> Slice_subSlice h s subBegin 0
            = Inl (out_of_range (if subBegin \<ge> SliceBase_size s
                                 then ''sub-Slice index out of range''
                                 else ''Begin must be smaller than end''))
       \<and> PtrSlice_subSlice t subBegin 0
            = Inl (out_of_range (if subBegin \<ge> SliceBase_size t
                                 then ''sub-Slice index out of range''
                                 else ''Begin must be smaller than end''))
       \<and> (subBegin \<ge> SliceBase_size s \<longrightarrow>
            Slice_subSlice h s subBegin subEnd
              = Inl (out_of_range ''sub-Slice index out of range''))
       \<and> (subBegin \<ge> SliceBase_size t \<longrightarrow>
            PtrSlice_subSlice t subBegin subEnd
              = Inl (out_of_range ''sub-Slice index out of range''))"
proof -
  from assms(1) have be: "begin < end" and sz: "end \<le> cont_size (h cont)"
    and s: "s = \<lparr>m_begin = begin, m_end = end, m_cont = cont\<rparr>"
    by (simp_all add: Slice_ctor_Inr_iff)
  from assms(2) have be': "begin' < end'" and p: "p \<noteq> nullptr"
    and t: "t = \<lparr>m_begin = begin', m_end = end', m_ptr = p\<rparr>"
    by (simp_all add: PtrSlice_ctor_Inr_iff)
  have inv_s: "m_begin s < m_end s" and inv_t: "m_begin t < m_end t"
    using be be' by (simp_all add: s t)
  have whole_s: "SliceBase_size s + begin = end" "m_begin s = begin" "m_cont s = cont"
    and whole_t: "SliceBase_size t + begin' = end'" "m_begin t = begin'" "m_ptr t = p"
    by (simp_all add: s t SliceBase_size_def)
  have 1: "subBegin < subEnd \<and> subEnd = SliceBase_size s \<longrightarrow>
            Slice_subSlice h s subBegin subEnd
              = Inr \<lparr>m_begin = subBegin + begin, m_end = end, m_cont = cont\<rparr>"
    using sz by (auto simp: Slice_subSlice_Inr_iff [OF inv_s] whole_s)
  have 2: "subBegin < subEnd \<and> subEnd = SliceBase_size t \<longrightarrow>
            PtrSlice_subSlice t subBegin subEnd
              = Inr \<lparr>m_begin = subBegin + begin', m_end = end', m_ptr = p\<rparr>"
    using p by (auto simp: PtrSlice_subSlice_Inr_iff [OF inv_t] whole_t)
  have 5: "Slice_subSlice h s subBegin subEnd
              = Inl (out_of_range ''sub-Slice index out of range'')"
    if "subBegin \<ge> SliceBase_size s" for subEnd
    using that by (simp add: Slice_subSlice_def calculateSubSliceBounds_def)
  have 6: "PtrSlice_subSlice t subBegin subEnd
              = Inl (out_of_range ''sub-Slice index out of range'')"
    if "subBegin \<ge> SliceBase_size t" for subEnd
    using that by (simp add: PtrSlice_subSlice_def calculateSubSliceBounds_def)
  have 3: "Slice_subSlice h s subBegin 0
            = Inl (out_of_range ''Begin must be smaller than end'')"
    if lt: "subBegin < SliceBase_size s"
  proof -
    have "calculateSubSliceBounds s subBegin 0 = Inr (subBegin + m_begin s, 0 + m_begin s)"
      using inv_s lt by (rule calculateSubSliceBounds_ok) simp
    moreover have "begin \<le> begin + subBegin"
      using be lt by (intro add_in_range(3)) (simp_all add: s SliceBase_size_def)
    ultimately show ?thesis
      by (simp add: Slice_subSlice_def Slice_ctor_def SliceBase_ctor_def s add.commute)
  qed
  have 4: "PtrSlice_subSlice t subBegin 0
            = Inl (out_of_range ''Begin must be smaller than end'')"
    if lt: "subBegin < SliceBase_size t"
  proof -
    have "calculateSubSliceBounds t subBegin 0 = Inr (subBegin + m_begin t, 0 + m_begin t)"
      using inv_t lt by (rule calculateSubSliceBounds_ok) simp
    moreover have "begin' \<le> begin' + subBegin"
      using be' lt by (intro add_in_range(3)) (simp_all add: t SliceBase_size_def)
    ultimately show ?thesis
      by (simp add: PtrSlice_subSlice_def PtrSlice_ctor_def SliceBase_ctor_def t add.commute)
  qed
  from 3 5 have c3: "Slice_subSlice h s subBegin 0
            = Inl (out_of_range (if subBegin \<ge> SliceBase_size s
                                 then ''sub-Slice index out of range''
                                 else ''Begin must be smaller than end''))"
    by (simp add: not_le)
  from 4 6 have c4: "PtrSlice_subSlice t subBegin 0
            = Inl (out_of_range (if subBegin \<ge> SliceBase_size t
                                 then ''sub-Slice index out of range''
                                 else ''Begin must be smaller than end''))"
    by (simp add: not_le)
  from 1 2 c3 c4 5 6 show ?thesis by blast
qed

theorem subSlice_edge_cases_witness:
  "Slice_subSlice vec \<lparr>m_begin = 2, m_end = 5, m_cont = 0\<rparr> 2 3
     = Inr \<lparr>m_begin = 4, m_end = 5, m_cont = 0\<rparr>
   \<and> PtrSlice_subSlice \<lparr>m_begin = 2, m_end = 5, m_ptr = Ptr 0 0\<rparr> 2 3
     = Inr \<lparr>m_begin = 4, m_end = 5, m_ptr = Ptr 0 0\<rparr>
   \<and> Slice_subSlice vec \<lparr>m_begin = 2, m_end = 5, m_cont = 0\<rparr> 2 0
     = Inl (out_of_range ''Begin must be smaller than end'')
   \<and> PtrSlice_subSlice \<lparr>m_begin = 2, m_end = 5, m_ptr = Ptr 0 0\<rparr> 2 0
     = Inl (out_of_range ''Begin must be smaller than end'')
   \<and> Slice_subSlice vec \<lparr>m_begin = 2, m_end = 5, m_cont = 0\<rparr> 3 4
     = Inl (out_of_range ''sub-Slice index out of range'')
   \<and> PtrSlice_subSlice \<lparr>m_begin = 2, m_end = 5, m_ptr = Ptr 0 0\<rparr> 3 4
     = Inl (out_of_range ''sub-Slice index out of range'')"
  using
    subSlice_edge_cases [of vec 0 2 5 "\<lparr>m_begin = 2, m_end = 5, m_cont = 0\<rparr>"
      "Ptr 0 0" 2 5 "\<lparr>m_begin = 2, m_end = 5, m_ptr = Ptr 0 0\<rparr>" 2 3]
    subSlice_edge_cases [of vec 0 2 5 "\<lparr>m_begin = 2, m_end = 5, m_cont = 0\<rparr>"
      "Ptr 0 0" 2 5 "\<lparr>m_begin = 2, m_end = 5, m_ptr = Ptr 0 0\<rparr>" 3 4]
  by (simp add: Slice_ctor_Inr_iff PtrSlice_ctor_Inr_iff SliceBase_size_def vec_def
      cont_size_def)

text \<open>
  Claim C2. When \<open>subSlice(a, b)\<close> of a constructed slice succeeds, the new
  slice refers to the same container (or holds the same pointer) as its parent,
  its size is \<open>b - a\<close>, and for every \<open>k < b - a\<close> its \<open>at(k)\<close> is the parent's
  \<open>at(a + k)\<close>, in every state of the store; in the store in which the
  sub-slice was made, that is the reference to the container's element at
  position \<open>begin + a + k\<close>.
\<close>

theorem subSlice_at:
  assumes "Slice_ctor h cont begin end = Inr s"
    and "Slice_subSlice h1 s a b = Inr s'"
    and "k < b - a"
    and "PtrSlice_ctor p begin' end' = Inr t"
    and "PtrSlice_subSlice t a' b' = Inr t'"
    and "k' < b' - a'"
  shows "m_cont s' = m_cont s
       \<and> SliceBase_size s' = b - a
       \<and> Slice_at h2 s' k = Slice_at h2 s (a + k)
       \<and> Slice_at h1 s' k = Inr (cont, unat begin + unat a + unat k)
       \<and> m_ptr t' = m_ptr t
       \<and> SliceBase_size t' = b' - a'
       \<and> PtrSlice_at h2 t' k' = PtrSlice_at h2 t (a' + k')"
proof -
  from assms(1) have be: "begin < end"
    and s: "s = \<lparr>m_begin = begin, m_end = end, m_cont = cont\<rparr>"
    by (simp_all add: Slice_ctor_Inr_iff)
  from assms(4) have be': "begin' < end'"
    and t: "t = \<lparr>m_begin = begin', m_end = end', m_ptr = p\<rparr>"
    by (simp_all add: PtrSlice_ctor_Inr_iff)
  have inv_s: "m_begin s < m_end s" and inv_t: "m_begin t < m_end t"
    using be be' by (simp_all add: s t)
  from assms(2) have ab: "a < b" and b: "b \<le> SliceBase_size s"
    and fits: "b + m_begin s \<le> cont_size (h1 (m_cont s))"
    and s': "s' = \<lparr>m_begin = a + m_begin s, m_end = b + m_begin s, m_cont = m_cont s\<rparr>"
    by (simp_all add: Slice_subSlice_Inr_iff [OF inv_s])
  from assms(5) have ab': "a' < b'" and b': "b' \<le> SliceBase_size t"
    and t': "t' = \<lparr>m_begin = a' + m_begin t, m_end = b' + m_begin t, m_ptr = m_ptr t\<rparr>"
    by (simp_all add: PtrSlice_subSlice_Inr_iff [OF inv_t])
  have size_s': "SliceBase_size s' = b - a" and size_t': "SliceBase_size t' = b' - a'"
    by (simp_all add: s' t' SliceBase_size_def)
  have in_s: "a + k < SliceBase_size s"
    using ab b assms(3) by (rule sub_index_in_range)
  have in_t: "a' + k' < SliceBase_size t"
    using ab' b' assms(6) by (rule sub_index_in_range)
  have "Slice_at h2 s' k = cont_at h2 (m_cont s) (a + m_begin s + k)"
    using assms(3) by (simp add: Slice_at_def rangeCheck_ok size_s') (simp add: s')
  moreover have "Slice_at h2 s (a + k) = cont_at h2 (m_cont s) (m_begin s + (a + k))"
    using in_s by (simp add: Slice_at_def rangeCheck_ok)
  ultimately have at_s: "Slice_at h2 s' k = Slice_at h2 s (a + k)"
    by (simp add: ac_simps)
  have "PtrSlice_at h2 t' k' = ptr_index h2 (m_ptr t) (a' + m_begin t + k')"
    using assms(6) by (simp add: PtrSlice_at_def rangeCheck_ok size_t') (simp add: t')
  moreover have "PtrSlice_at h2 t (a' + k') = ptr_index h2 (m_ptr t) (m_begin t + (a' + k'))"
    using in_t by (simp add: PtrSlice_at_def rangeCheck_ok)
  ultimately have at_t: "PtrSlice_at h2 t' k' = PtrSlice_at h2 t (a' + k')"
    by (simp add: ac_simps)
  have a_lt: "a < end - begin" and b_le: "b \<le> end - begin"
    using ab b by (simp_all add: s SliceBase_size_def)
  have ord: "a + begin < b + begin"
    using sub_bounds_order [OF be a_lt b_le] ab by simp
  have u: "unat (a + begin) = unat a + unat begin"
    using be less_imp_le [OF a_lt] by (rule add_in_range_le(1))
  have "Slice_at h1 \<lparr>m_begin = a + begin, m_end = b + begin, m_cont = cont\<rparr> k
          = Inr (cont, unat (a + begin) + unat k)"
    using ord fits assms(3) by (intro Slice_at_in_range(1)) (simp_all add: s)
  then have here: "Slice_at h1 s' k = Inr (cont, unat begin + unat a + unat k)"
    by (simp add: s' s u)
  show ?thesis
    using size_s' size_t' at_s at_t here by (simp add: s' t')
qed

theorem subSlice_at_witness:
  "Slice_subSlice vec \<lparr>m_begin = 2, m_end = 5, m_cont = 0\<rparr> 0 2
     = Inr \<lparr>m_begin = 2, m_end = 4, m_cont = 0\<rparr>
   \<and> Slice_at vec \<lparr>m_begin = 2, m_end = 4, m_cont = 0\<rparr> 0
     = Slice_at vec \<lparr>m_begin = 2, m_end = 5, m_cont = 0\<rparr> 0
   \<and> Slice_at vec \<lparr>m_begin = 2, m_end = 4, m_cont = 0\<rparr> 0 = Inr (0, 2)
   \<and> PtrSlice_subSlice \<lparr>m_begin = 2, m_end = 5, m_ptr = Ptr 0 0\<rparr> 0 2
     = Inr \<lparr>m_begin = 2, m_end = 4, m_ptr = Ptr 0 0\<rparr>
   \<and> PtrSlice_at vec \<lparr>m_begin = 2, m_end = 4, m_ptr = Ptr 0 0\<rparr> 0
     = PtrSlice_at vec \<lparr>m_begin = 2, m_end = 5, m_ptr = Ptr 0 0\<rparr> 0"
proof -
  have c: "Slice_ctor vec 0 2 5 = Inr \<lparr>m_begin = 2, m_end = 5, m_cont = 0\<rparr>"
    by (simp add: Slice_ctor_Inr_iff vec_def cont_size_def)
  have sub: "Slice_subSlice vec \<lparr>m_begin = 2, m_end = 5, m_cont = 0\<rparr> 0 2
     = Inr \<lparr>m_begin = 2, m_end = 4, m_cont = 0\<rparr>"
    by (simp add: Slice_subSlice_Inr_iff SliceBase_size_def vec_def cont_size_def)
  have k: "(0 :: size_t) < 2 - 0"
    by simp
  have pc: "PtrSlice_ctor (Ptr 0 0) 2 5 = Inr \<lparr>m_begin = 2, m_end = 5, m_ptr = Ptr 0 0\<rparr>"
    by (simp add: PtrSlice_ctor_Inr_iff)
  have psub: "PtrSlice_subSlice \<lparr>m_begin = 2, m_end = 5, m_ptr = Ptr 0 0\<rparr> 0 2
     = Inr \<lparr>m_begin = 2, m_end = 4, m_ptr = Ptr 0 0\<rparr>"
    by (simp add: PtrSlice_subSlice_Inr_iff SliceBase_size_def)
  show ?thesis
    using subSlice_at [OF c sub k pc psub k, of vec] sub psub
    by (simp add: Slice_at_def rangeCheck_def SliceBase_size_def cont_at_def cont_size_def vec_def)
qed

section \<open>Traversal of a slice\<close>

text \<open>
  Claim C6. For a constructed slice, the loop from \<open>begin()\<close> to \<open>end()\<close> visits
  the positions \<open>begin_, \<dots>, end_ - 1\<close> of the store in this order: \<open>size()\<close>
  elements, the \<open>k\<close>-th of them the one \<open>at(k)\<close> returns. \<open>cbegin()\<close> and
  \<open>cend()\<close> give the same iterators. The loop reads the slice and the store
  and changes neither, so it can be run again with the same result. A standard
  container holds fewer than \<open>2^63\<close> elements (\<open>std::advance\<close> takes a signed
  distance); for a slice of a C array, the array has to hold the slice's range,
  which the header leaves to the caller.
\<close>

theorem traversal_visits_slice:
  assumes "Slice_ctor h cont begin end = Inr s" and "length (h cont) < 2 ^ 63"
    and "PtrSlice_ctor (Ptr a off) begin' end' = Inr t" and "off + unat end' \<le> length (h a)"
  shows "Slice_begin h s = Inr (Ptr cont (unat begin))
       \<and> Slice_end h s = Inr (Ptr cont (unat end))
       \<and> Slice_cbegin h s = Slice_begin h s \<and> Slice_cend h s = Slice_end h s
       \<and> Slice_range_for h s = Inr (map (Pair cont) [unat begin..<unat end])
       \<and> length (map (Pair cont) [unat begin..<unat end]) = unat (SliceBase_size s)
       \<and> (\<forall>k. k < SliceBase_size s \<longrightarrow>
             Slice_at h s k = Inr (map (Pair cont) [unat begin..<unat end] ! unat k))
       \<and> PtrSlice_begin h t = Inr (Ptr a (off + unat begin'))
       \<and> PtrSlice_end h t = Inr (Ptr a (off + unat end'))
       \<and> PtrSlice_cbegin h t = PtrSlice_begin h t \<and> PtrSlice_cend h t = PtrSlice_end h t
       \<and> PtrSlice_range_for h t = Inr (map (Pair a) [off + unat begin'..<off + unat end'])
       \<and> length (map (Pair a) [off + unat begin'..<off + unat end']) = unat (SliceBase_size t)
       \<and> (\<forall>k. k < SliceBase_size t \<longrightarrow>
             PtrSlice_at h t k
               = Inr (map (Pair a) [off + unat begin'..<off + unat end'] ! unat k))"
proof -
  from assms(1) have be: "begin < end" and sz: "end \<le> cont_size (h cont)"
    and s: "s = \<lparr>m_begin = begin, m_end = end, m_cont = cont\<rparr>"
    by (simp_all add: Slice_ctor_Inr_iff)
  from assms(3) have be': "begin' < end'"
    and t: "t = \<lparr>m_begin = begin', m_end = end', m_ptr = Ptr a off\<rparr>"
    by (simp_all add: PtrSlice_ctor_Inr_iff)
  have ube: "unat begin < unat end" and ube': "unat begin' < unat end'"
    using be be' by (simp_all add: word_less_nat_alt)
  have ue: "unat end \<le> length (h cont)"
    using sz unat_cont_size_le [of "h cont"] by (simp add: word_le_nat_alt)
  have size_s: "unat (SliceBase_size s) = unat end - unat begin"
    and size_t: "unat (SliceBase_size t) = unat end' - unat begin'"
    using be be' by (simp_all add: s t SliceBase_size_def unat_sub)
  \<comment> \<open>the container\<close>
  have b: "Slice_begin h s = Inr (Ptr cont (unat begin))"
    using ube ue assms(2) by (simp add: Slice_begin_def s RETURN_ITERATOR_in_range)
  have e: "Slice_end h s = Inr (Ptr cont (unat end))"
    using ue assms(2) by (simp add: Slice_end_def s RETURN_ITERATOR_in_range)
  have c: "Slice_cbegin h s = Slice_begin h s" "Slice_cend h s = Slice_end h s"
    by (simp_all add: Slice_cbegin_def Slice_begin_def Slice_cend_def Slice_end_def)
  have r: "Slice_range_for h s = Inr (map (Pair cont) [unat begin..<unat end])"
    using less_imp_le [OF ube] ue by (simp add: Slice_range_for_def b e range_for_positions)
  have n: "length (map (Pair cont) [unat begin..<unat end]) = unat (SliceBase_size s)"
    by (simp add: size_s)
  have at: "Slice_at h s k = Inr (map (Pair cont) [unat begin..<unat end] ! unat k)"
    if k: "k < SliceBase_size s" for k
  proof -
    have "unat k < unat end - unat begin"
      using k size_s by (simp add: word_less_nat_alt)
    moreover have "Slice_at h s k = Inr (cont, unat begin + unat k)"
      unfolding s using be sz k by (intro Slice_at_in_range(1)) (simp_all add: s SliceBase_size_def)
    ultimately show ?thesis by simp
  qed
  \<comment> \<open>the array\<close>
  have b': "PtrSlice_begin h t = Inr (Ptr a (off + unat begin'))"
    using ube' assms(4) by (simp add: PtrSlice_begin_def t ptr_add_uint)
  have e': "PtrSlice_end h t = Inr (Ptr a (off + unat end'))"
    using assms(4) by (simp add: PtrSlice_end_def t ptr_add_uint)
  have c': "PtrSlice_cbegin h t = PtrSlice_begin h t" "PtrSlice_cend h t = PtrSlice_end h t"
    by (simp_all add: PtrSlice_cbegin_def PtrSlice_begin_def PtrSlice_cend_def PtrSlice_end_def)
  have r': "PtrSlice_range_for h t = Inr (map (Pair a) [off + unat begin'..<off + unat end'])"
    using less_imp_le [OF ube'] assms(4) by (simp add: PtrSlice_range_for_def b' e' range_for_positions)
  have n': "length (map (Pair a) [off + unat begin'..<off + unat end']) = unat (SliceBase_size t)"
    by (simp add: size_t)
  have at': "PtrSlice_at h t k = Inr (map (Pair a) [off + unat begin'..<off + unat end'] ! unat k)"
    if k: "k < SliceBase_size t" for k
  proof -
    have k': "k < end' - begin'"
      using k by (simp add: t SliceBase_size_def)
    have lt: "unat k < unat end' - unat begin'"
      using k size_t by (simp add: word_less_nat_alt)
    have u: "unat (begin' + k) = unat begin' + unat k"
      using be' k' by (rule add_in_range(1))
    have "PtrSlice_at h t k = ptr_index h (Ptr a off) (begin' + k)"
      using k by (simp add: PtrSlice_at_def rangeCheck_ok) (simp add: t)
    also have "\<dots> = Inr (a, off + (unat begin' + unat k))"
      using lt assms(4) by (simp add: ptr_index_def ptr_add_uint deref_def u)
    finally show ?thesis
      using lt by (simp add: add.assoc)
  qed
  from b e c r n at b' e' c' r' n' at' show ?thesis
    by simp
qed

theorem traversal_visits_slice_witness:
  "Slice_ctor vec 0 3 5 = Inr \<lparr>m_begin = 3, m_end = 5, m_cont = 0\<rparr>
   \<and> Slice_range_for vec \<lparr>m_begin = 3, m_end = 5, m_cont = 0\<rparr> = Inr [(0, 3), (0, 4)]
   \<and> PtrSlice_ctor (Ptr 0 0) 3 5 = Inr \<lparr>m_begin = 3, m_end = 5, m_ptr = Ptr 0 0\<rparr>
   \<and> PtrSlice_range_for vec \<lparr>m_begin = 3, m_end = 5, m_ptr = Ptr 0 0\<rparr> = Inr [(0, 3), (0, 4)]"
proof -
  have c: "Slice_ctor vec 0 3 5 = Inr \<lparr>m_begin = 3, m_end = 5, m_cont = 0\<rparr>"
    by (simp add: Slice_ctor_Inr_iff vec_def cont_size_def)
  have len: "length (vec 0) < 2 ^ 63"
    by (simp add: vec_def)
  have pc: "PtrSlice_ctor (Ptr 0 0) 3 5 = Inr \<lparr>m_begin = 3, m_end = 5, m_ptr = Ptr 0 0\<rparr>"
    by (simp add: PtrSlice_ctor_Inr_iff)
  have fits: "0 + unat (5 :: size_t) \<le> length (vec 0)"
    by (simp add: vec_def)
  have l: "[unat (3 :: size_t)..<unat (5 :: size_t)] = [3, 4]"
    by (simp add: upt_rec)
  show ?thesis
    using traversal_visits_slice [OF c len pc fits] c pc l by simp
qed

section \<open>The bounds of a slice never change\<close>

text \<open>
  Claim C8. A slice has \<open>begin_ < end_\<close> from its construction on, and no call
  changes it. A constructor leaves the store as it was, whether it returns or
  throws; when it throws there is no slice, and the slice it returns has the
  bounds it was given, with \<open>begin_ < end_\<close> (and \<open>end_\<close> within the container, or
  a pointer that is not null). Every call of \<open>at\<close>, of \<open>cbegin\<close>, \<open>begin\<close>,
  \<open>cend\<close>, \<open>end\<close>, of the loop between them and of \<open>subSlice\<close> ends in the state
  it started in, the slice with its bounds and store and the store's contents,
  whether it returns or throws; \<open>at\<close> and \<open>subSlice\<close> of a container slice and
  \<open>subSlice\<close> of a C-array slice always do one of the two, and the others
  unless their behaviour is undefined. \<open>at\<close> of a C-array slice throws nothing
  but the exception of the index check. The slice that \<open>subSlice\<close> returns
  keeps its parent's store and lies within its parent's bounds, again with
  \<open>begin_ < end_\<close>.
\<close>

theorem slice_never_changes:
  fixes st :: "(Slice, 'a) config" and pt :: "(PtrSlice, 'a) config"
  shows
   "post (Slice_ctor_st cont begin end h) = Some h
  \<and> post (PtrSlice_ctor_st p begin end h) = Some h
  \<and> (\<forall>s h'. Slice_ctor_st cont begin end h = Returns s h' \<longrightarrow>
        s = \<lparr>m_begin = begin, m_end = end, m_cont = cont\<rparr>
      \<and> m_begin s < m_end s \<and> m_end s \<le> cont_size (h cont))
  \<and> (\<forall>t h'. PtrSlice_ctor_st p begin end h = Returns t h' \<longrightarrow>
        t = \<lparr>m_begin = begin, m_end = end, m_ptr = p\<rparr>
      \<and> m_begin t < m_end t \<and> m_ptr t \<noteq> nullptr)
  \<and> post (Slice_at_st i st) = Some st
  \<and> (PtrSlice_at_st i pt = Undefined \<or> post (PtrSlice_at_st i pt) = Some pt)
  \<and> (\<forall>e pt'. PtrSlice_at_st i pt = Throws e pt' \<longrightarrow>
        pt' = pt \<and> e = out_of_range ''Index outside of the slice'')
  \<and> (Slice_cbegin_st st = Undefined \<or> post (Slice_cbegin_st st) = Some st)
  \<and> (Slice_begin_st st = Undefined \<or> post (Slice_begin_st st) = Some st)
  \<and> (Slice_cend_st st = Undefined \<or> post (Slice_cend_st st) = Some st)
  \<and> (Slice_end_st st = Undefined \<or> post (Slice_end_st st) = Some st)
  \<and> (Slice_range_for_st st = Undefined \<or> post (Slice_range_for_st st) = Some st)
  \<and> (PtrSlice_cbegin_st pt = Undefined \<or> post (PtrSlice_cbegin_st pt) = Some pt)
  \<and> (PtrSlice_begin_st pt = Undefined \<or> post (PtrSlice_begin_st pt) = Some pt)
  \<and> (PtrSlice_cend_st pt = Undefined \<or> post (PtrSlice_cend_st pt) = Some pt)
  \<and> (PtrSlice_end_st pt = Undefined \<or> post (PtrSlice_end_st pt) = Some pt)
  \<and> (PtrSlice_range_for_st pt = Undefined \<or> post (PtrSlice_range_for_st pt) = Some pt)
  \<and> post (Slice_subSlice_st a b st) = Some st
  \<and> post (PtrSlice_subSlice_st a b pt) = Some pt
  \<and> (\<forall>s' st'. m_begin (self st) < m_end (self st)
          \<and> Slice_subSlice_st a b st = Returns s' st' \<longrightarrow>
        m_cont s' = m_cont (self st) \<and> m_begin (self st) \<le> m_begin s'
      \<and> m_begin s' < m_end s' \<and> m_end s' \<le> m_end (self st))
  \<and> (\<forall>t' pt'. m_begin (self pt) < m_end (self pt)
          \<and> PtrSlice_subSlice_st a b pt = Returns t' pt' \<longrightarrow>
        m_ptr t' = m_ptr (self pt) \<and> m_begin (self pt) \<le> m_begin t'
      \<and> m_begin t' < m_end t' \<and> m_end t' \<le> m_end (self pt))"
proof -
  have c1: "post (Slice_ctor_st cont begin end h) = Some h"
    by (simp add: Slice_ctor_st_def post_def)
  have c2: "post (PtrSlice_ctor_st p begin end h) = Some h"
    by (simp add: PtrSlice_ctor_st_def post_def)
  have c3: "\<forall>s h'. Slice_ctor_st cont begin end h = Returns s h' \<longrightarrow>
        s = \<lparr>m_begin = begin, m_end = end, m_cont = cont\<rparr>
      \<and> m_begin s < m_end s \<and> m_end s \<le> cont_size (h cont)"
    by (auto simp: Slice_ctor_st_def split: if_splits)
  have c4: "\<forall>t h'. PtrSlice_ctor_st p begin end h = Returns t h' \<longrightarrow>
        t = \<lparr>m_begin = begin, m_end = end, m_ptr = p\<rparr>
      \<and> m_begin t < m_end t \<and> m_ptr t \<noteq> nullptr"
    by (auto simp: PtrSlice_ctor_st_def split: if_splits)
  have a1: "post (Slice_at_st i st) = Some st"
    by (simp add: Slice_at_st_def rangeCheck_st_def then_call_def observe_def cont_at_def post_def)
  have a2: "PtrSlice_at_st i pt = Undefined \<or> post (PtrSlice_at_st i pt) = Some pt"
    unfolding PtrSlice_at_st_def
    by (rule post_then_call) (simp_all add: post_rangeCheck_st post_observe)
  have a3: "\<forall>e pt'. PtrSlice_at_st i pt = Throws e pt' \<longrightarrow>
        pt' = pt \<and> e = out_of_range ''Index outside of the slice''"
    using ptr_index_not_out_of_range [of "objs pt" "m_ptr (self pt)" "m_begin (self pt) + i"]
    by (auto simp: PtrSlice_at_st_def rangeCheck_st_def then_call_def observe_def
        ptr_index_def ptr_add_def deref_def
        split: if_splits sum.splits failure.splits ptr.splits)
  have i1: "Slice_cbegin_st st = Undefined \<or> post (Slice_cbegin_st st) = Some st"
    "Slice_begin_st st = Undefined \<or> post (Slice_begin_st st) = Some st"
    "Slice_cend_st st = Undefined \<or> post (Slice_cend_st st) = Some st"
    "Slice_end_st st = Undefined \<or> post (Slice_end_st st) = Some st" for st :: "(Slice, 'a) config"
    unfolding Slice_cbegin_st_def Slice_begin_st_def Slice_cend_st_def Slice_end_st_def
    by (rule post_observe)+
  have i2: "Slice_range_for_st st = Undefined \<or> post (Slice_range_for_st st) = Some st"
    unfolding Slice_range_for_st_def
    by (intro post_then_call i1 post_observe)
  have j1: "PtrSlice_cbegin_st pt = Undefined \<or> post (PtrSlice_cbegin_st pt) = Some pt"
    "PtrSlice_begin_st pt = Undefined \<or> post (PtrSlice_begin_st pt) = Some pt"
    "PtrSlice_cend_st pt = Undefined \<or> post (PtrSlice_cend_st pt) = Some pt"
    "PtrSlice_end_st pt = Undefined \<or> post (PtrSlice_end_st pt) = Some pt"
    for pt :: "(PtrSlice, 'a) config"
    unfolding PtrSlice_cbegin_st_def PtrSlice_begin_st_def PtrSlice_cend_st_def PtrSlice_end_st_def
    by (rule post_observe)+
  have j2: "PtrSlice_range_for_st pt = Undefined \<or> post (PtrSlice_range_for_st pt) = Some pt"
    unfolding PtrSlice_range_for_st_def
    by (intro post_then_call j1 post_observe)
  have s1: "post (Slice_subSlice_st a b st) = Some st"
    by (simp add: Slice_subSlice_st_def calculateSubSliceBounds_st_def Slice_ctor_st_def
        post_def Let_def)
  have s2: "post (PtrSlice_subSlice_st a b pt) = Some pt"
    by (simp add: PtrSlice_subSlice_st_def calculateSubSliceBounds_st_def PtrSlice_ctor_st_def
        post_def Let_def)
  have s3: "m_cont s' = m_cont (self st) \<and> m_begin (self st) \<le> m_begin s'
      \<and> m_begin s' < m_end s' \<and> m_end s' \<le> m_end (self st)"
    if inv: "m_begin (self st) < m_end (self st)"
      and sub: "Slice_subSlice_st a b st = Returns s' st'" for s' st'
  proof -
    from sub have "Slice_subSlice (objs st) (self st) a b = Inr s'"
      by (simp add: Slice_subSlice_st_eq observe_Returns_iff)
    then have ab: "a < b" and b: "b \<le> m_end (self st) - m_begin (self st)"
      and s': "s' = \<lparr>m_begin = a + m_begin (self st), m_end = b + m_begin (self st),
                    m_cont = m_cont (self st)\<rparr>"
      by (simp_all add: Slice_subSlice_Inr_iff [OF inv] SliceBase_size_def)
    show ?thesis
      using subSlice_within [OF inv ab b] by (simp add: s')
  qed
  have s4: "m_ptr t' = m_ptr (self pt) \<and> m_begin (self pt) \<le> m_begin t'
      \<and> m_begin t' < m_end t' \<and> m_end t' \<le> m_end (self pt)"
    if inv: "m_begin (self pt) < m_end (self pt)"
      and sub: "PtrSlice_subSlice_st a b pt = Returns t' pt'" for t' pt'
  proof -
    from sub have "PtrSlice_subSlice (self pt) a b = Inr t'"
      by (simp add: PtrSlice_subSlice_st_eq observe_Returns_iff)
    then have ab: "a < b" and b: "b \<le> m_end (self pt) - m_begin (self pt)"
      and t': "t' = \<lparr>m_begin = a + m_begin (self pt), m_end = b + m_begin (self pt),
                    m_ptr = m_ptr (self pt)\<rparr>"
      by (simp_all add: PtrSlice_subSlice_Inr_iff [OF inv] SliceBase_size_def)
    show ?thesis
      using subSlice_within [OF inv ab b] by (simp add: t')
  qed
  from s3 have s3a: "\<forall>s' st'. m_begin (self st) < m_end (self st)
          \<and> Slice_subSlice_st a b st = Returns s' st' \<longrightarrow>
        m_cont s' = m_cont (self st) \<and> m_begin (self st) \<le> m_begin s'
      \<and> m_begin s' < m_end s' \<and> m_end s' \<le> m_end (self st)"
    by blast
  from s4 have s4a: "\<forall>t' pt'. m_begin (self pt) < m_end (self pt)
          \<and> PtrSlice_subSlice_st a b pt = Returns t' pt' \<longrightarrow>
        m_ptr t' = m_ptr (self pt) \<and> m_begin (self pt) \<le> m_begin t'
      \<and> m_begin t' < m_end t' \<and> m_end t' \<le> m_end (self pt)"
    by blast
  show ?thesis
    by (intro conjI c1 c2 c3 c4 a1 a2 a3 i1 i2 j1 j2 s1 s2 s3a s4a)
qed

theorem slice_never_changes_witness:
  "Slice_ctor_st 0 2 5 vec = Returns \<lparr>m_begin = 2, m_end = 5, m_cont = 0\<rparr> vec
   \<and> (2 :: size_t) < 5
   \<and> PtrSlice_ctor_st (Ptr 0 0) 2 5 vec = Returns \<lparr>m_begin = 2, m_end = 5, m_ptr = Ptr 0 0\<rparr> vec
   \<and> Slice_subSlice_st 0 2 \<lparr>self = \<lparr>m_begin = 2, m_end = 5, m_cont = 0\<rparr>, objs = vec\<rparr>
       = Returns \<lparr>m_begin = 2, m_end = 4, m_cont = 0\<rparr>
           \<lparr>self = \<lparr>m_begin = 2, m_end = 5, m_cont = 0\<rparr>, objs = vec\<rparr>
   \<and> (4 :: size_t) \<le> 5
   \<and> PtrSlice_subSlice_st 0 2 \<lparr>self = \<lparr>m_begin = 2, m_end = 5, m_ptr = Ptr 0 0\<rparr>, objs = vec\<rparr>
       = Returns \<lparr>m_begin = 2, m_end = 4, m_ptr = Ptr 0 0\<rparr>
           \<lparr>self = \<lparr>m_begin = 2, m_end = 5, m_ptr = Ptr 0 0\<rparr>, objs = vec\<rparr>
   \<and> Slice_at_st 3 \<lparr>self = \<lparr>m_begin = 2, m_end = 5, m_cont = 0\<rparr>, objs = vec\<rparr>
       = Throws (out_of_range ''Index outside of the slice'')
           \<lparr>self = \<lparr>m_begin = 2, m_end = 5, m_cont = 0\<rparr>, objs = vec\<rparr>
   \<and> PtrSlice_at_st 3 \<lparr>self = \<lparr>m_begin = 2, m_end = 5, m_ptr = Ptr 0 0\<rparr>, objs = vec\<rparr>
       = Throws (out_of_range ''Index outside of the slice'')
           \<lparr>self = \<lparr>m_begin = 2, m_end = 5, m_ptr = Ptr 0 0\<rparr>, objs = vec\<rparr>"
proof -
  have c: "Slice_ctor_st 0 2 5 vec = Returns \<lparr>m_begin = 2, m_end = 5, m_cont = 0\<rparr> vec"
    by (simp add: Slice_ctor_st_def vec_def cont_size_def)
  have pc: "PtrSlice_ctor_st (Ptr 0 0) 2 5 vec
      = Returns \<lparr>m_begin = 2, m_end = 5, m_ptr = Ptr 0 0\<rparr> vec"
    by (simp add: PtrSlice_ctor_st_def)
  have sub: "Slice_subSlice_st 0 2 \<lparr>self = \<lparr>m_begin = 2, m_end = 5, m_cont = 0\<rparr>, objs = vec\<rparr>
       = Returns \<lparr>m_begin = 2, m_end = 4, m_cont = 0\<rparr>
           \<lparr>self = \<lparr>m_begin = 2, m_end = 5, m_cont = 0\<rparr>, objs = vec\<rparr>"
    by (simp add: Slice_subSlice_st_eq observe_Returns_iff Slice_subSlice_Inr_iff
        SliceBase_size_def vec_def cont_size_def)
  have psub: "PtrSlice_subSlice_st 0 2
         \<lparr>self = \<lparr>m_begin = 2, m_end = 5, m_ptr = Ptr 0 0\<rparr>, objs = vec\<rparr>
       = Returns \<lparr>m_begin = 2, m_end = 4, m_ptr = Ptr 0 0\<rparr>
           \<lparr>self = \<lparr>m_begin = 2, m_end = 5, m_ptr = Ptr 0 0\<rparr>, objs = vec\<rparr>"
    by (simp add: PtrSlice_subSlice_st_eq observe_Returns_iff PtrSlice_subSlice_Inr_iff
        SliceBase_size_def)
  have f: "Slice_at_st 3 \<lparr>self = \<lparr>m_begin = 2, m_end = 5, m_cont = 0\<rparr>, objs = vec\<rparr>
       = Throws (out_of_range ''Index outside of the slice'')
           \<lparr>self = \<lparr>m_begin = 2, m_end = 5, m_cont = 0\<rparr>, objs = vec\<rparr>"
    by (simp add: Slice_at_st_def rangeCheck_st_def then_call_def SliceBase_size_def)
  have pf: "PtrSlice_at_st 3 \<lparr>self = \<lparr>m_begin = 2, m_end = 5, m_ptr = Ptr 0 0\<rparr>, objs = vec\<rparr>
       = Throws (out_of_range ''Index outside of the slice'')
           \<lparr>self = \<lparr>m_begin = 2, m_end = 5, m_ptr = Ptr 0 0\<rparr>, objs = vec\<rparr>"
    by (simp add: PtrSlice_at_st_def rangeCheck_st_def then_call_def SliceBase_size_def)
  show ?thesis
    using slice_never_changes [of 0 2 5 vec "Ptr 0 0" 3
        "\<lparr>self = \<lparr>m_begin = 2, m_end = 5, m_cont = 0\<rparr>, objs = vec\<rparr>"
        "\<lparr>self = \<lparr>m_begin = 2, m_end = 5, m_ptr = Ptr 0 0\<rparr>, objs = vec\<rparr>" 0 2]
      c pc sub psub f pf
    by simp
qed

end
